theory Spec2Isabelle
  imports Complex_Main "HOL-Library.Log_Nat" "HOL-Library.Code_Target_Numeral"
begin

section \<open>Untappd response decoders (response.go)\<close>

text \<open>
  The package has three \<^verbatim>\<open>json.Unmarshaler\<close> implementations: \<^verbatim>\<open>responseTime\<close>,
  \<^verbatim>\<open>responseURL\<close> and \<^verbatim>\<open>responseBool\<close>. Each method body is a few lines of glue around
  the Go standard library (\<^verbatim>\<open>encoding/json\<close>, \<^verbatim>\<open>fmt\<close>, \<^verbatim>\<open>time\<close>, \<^verbatim>\<open>net/url\<close>,
  \<^verbatim>\<open>strings\<close>), so the library functions they call are modelled first, following the
  library sources (Go 1.21) on a 64-bit platform, and the three methods
  are then transcribed from \<^verbatim>\<open>response.go\<close> on top of them.

  A Go method \<^verbatim>\<open>func (r *T) UnmarshalJSON(data []byte) error\<close> becomes a function of the
  input and of the value the receiver points to; it returns the error (\<open>None\<close> for
  \<^verbatim>\<open>nil\<close>) together with the value the receiver holds afterwards.
\<close>

subsection \<open>Errors\<close>

datatype url_error =
    InvalidControlCharacter
  | EmptyURL
  | MissingProtocolScheme
  | InvalidURIForRequest
  | FirstPathSegmentColon
  | EscapeError string
  | InvalidHostError string
  | MissingBracket
  | InvalidPort string
  | InvalidUserinfo

datatype error =
    SyntaxError
  | UnmarshalTypeError string
  | errInvalidBool
  | errInvalidTimeUnit
  | DurationError string
  | URLError url_error

text \<open>
  \<open>SyntaxError\<close> and \<open>UnmarshalTypeError\<close> are the two errors of \<^verbatim>\<open>json.Unmarshal\<close>; the
  latter carries its \<^verbatim>\<open>Value\<close> field (the description of the JSON value that did not fit).
  \<open>DurationError\<close> is an \<^verbatim>\<open>errors.New\<close> value of \<^verbatim>\<open>time.ParseDuration\<close> with its message,
  \<open>URLError\<close> the \<^verbatim>\<open>*url.Error\<close> of \<^verbatim>\<open>url.Parse\<close> with the error it wraps (\<open>url_error\<close>: the
  errors of package \<^verbatim>\<open>net/url\<close>, those with a text carrying the offending piece).
\<close>

subsection \<open>Bytes and decimal digits\<close>

definition byte :: "char \<Rightarrow> nat" where
  "byte c = of_char c"

definition is_digit :: "char \<Rightarrow> bool" where
  "is_digit c = (48 \<le> byte c \<and> byte c \<le> 57)"

definition digit_val :: "char \<Rightarrow> nat" where
  "digit_val c = byte c - 48"

definition digits_val :: "string \<Rightarrow> nat" where
  "digits_val s = foldl (\<lambda>x c. x * 10 + digit_val c) 0 s"

subsection \<open>JSON documents\<close>

text \<open>
  \<^verbatim>\<open>json.Unmarshal\<close> first runs its scanner over the bytes and returns a
  \<^verbatim>\<open>*json.SyntaxError\<close> when they are not one JSON value. The model starts after the
  scanner: the input is either \<open>Invalid\<close> or the JSON value the bytes spell. A number keeps
  its literal text (the decoder hands that text to \<^verbatim>\<open>strconv\<close>), strings and object keys
  are the unquoted bytes, and an object is the list of its members in input order
  (duplicate keys are possible, a later one is decoded over an earlier one).
\<close>

datatype json =
    JNull
  | JBool bool
  | JNumber string
  | JString string
  | JArray "json list"
  | JObject "(string \<times> json) list"

datatype data = Invalid | Valid json

text \<open>The \<^verbatim>\<open>Value\<close> description of an \<^verbatim>\<open>UnmarshalTypeError\<close> for a value of the wrong kind.\<close>

fun describe :: "json \<Rightarrow> string" where
  "describe JNull = ''null''"
| "describe (JBool b) = ''bool''"
| "describe (JNumber lit) = ''number''"
| "describe (JString s) = ''string''"
| "describe (JArray xs) = ''array''"
| "describe (JObject kvs) = ''object''"

subsection \<open>strconv.ParseInt\<close>

text \<open>
  \<^verbatim>\<open>strconv.ParseInt(s, 10, 64)\<close>: an optional sign, at least one decimal digit, and the
  value in the range of \<^verbatim>\<open>int64\<close>; anything else is an error (\<open>None\<close>).
\<close>

definition split_sign :: "string \<Rightarrow> bool \<times> string" where
  "split_sign s =
     (case s of
        [] \<Rightarrow> (False, [])
      | c # t \<Rightarrow> if c = CHR ''-'' then (True, t)
                else if c = CHR ''+'' then (False, t)
                else (False, s))"

definition strconv_ParseInt :: "string \<Rightarrow> int option" where
  "strconv_ParseInt s =
     (case split_sign s of (neg, ds) \<Rightarrow>
        if ds = [] \<or> \<not> list_all is_digit ds then None
        else if neg then (if digits_val ds \<le> 2 ^ 63 then Some (- int (digits_val ds)) else None)
        else (if digits_val ds < 2 ^ 63 then Some (int (digits_val ds)) else None))"

subsection \<open>Decoding into an int\<close>

text \<open>
  \<^verbatim>\<open>json.Unmarshal(data, &v)\<close> with \<^verbatim>\<open>v\<close> an \<^verbatim>\<open>int\<close> (64 bits here): \<^verbatim>\<open>null\<close> leaves
  \<^verbatim>\<open>v\<close> as it is and is no error; a number is parsed by \<^verbatim>\<open>strconv.ParseInt\<close> and a failure
  there is an \<^verbatim>\<open>UnmarshalTypeError\<close> naming the literal; every other value is an
  \<^verbatim>\<open>UnmarshalTypeError\<close>.
\<close>

fun store_int :: "json \<Rightarrow> int \<Rightarrow> error option \<times> int" where
  "store_int JNull v = (None, v)"
| "store_int (JNumber lit) v =
     (case strconv_ParseInt lit of
        None \<Rightarrow> (Some (UnmarshalTypeError (''number '' @ lit)), v)
      | Some n \<Rightarrow> (None, n))"
| "store_int j v = (Some (UnmarshalTypeError (describe j)), v)"

fun Unmarshal_int :: "data \<Rightarrow> int \<Rightarrow> error option \<times> int" where
  "Unmarshal_int Invalid v = (Some SyntaxError, v)"
| "Unmarshal_int (Valid j) v = store_int j v"

subsection \<open>float64\<close>

text \<open>
  A finite \<^verbatim>\<open>float64\<close> is a sign and a magnitude, the magnitude being the exact rational
  value \<open>m * 2 ^ e\<close> of the bit pattern (\<open>m < 2 ^ 53\<close>, \<open>- 1074 \<le> e \<le> 971\<close>). Arithmetic on
  floats is exact arithmetic followed by \<open>f64_round\<close>, IEEE 754 round-to-nearest, ties to
  even; only nonnegative values are ever rounded here, the sign is kept apart.
\<close>

record float64 =
  negative :: bool
  magnitude :: rat

definition pow2 :: "int \<Rightarrow> rat" where
  "pow2 e = (if 0 \<le> e then 2 ^ nat e else 1 / 2 ^ nat (- e))"

definition round_even :: "rat \<Rightarrow> int" where
  "round_even x =
     (let n = \<lfloor>x\<rfloor>; d = x - of_int n
      in if d < 1 / 2 then n
         else if 1 / 2 < d then n + 1
         else if even n then n else n + 1)"

text \<open>\<open>ilog2 x\<close> is \<open>\<lfloor>log\<^sub>2 x\<rfloor>\<close> for \<open>0 < x\<close>.\<close>

definition ilog2 :: "rat \<Rightarrow> int" where
  "ilog2 x =
     (if 1 \<le> x then int (floorlog 2 (nat \<lfloor>x\<rfloor>)) - 1
      else - int (floorlog 2 (nat (\<lceil>1 / x\<rceil> - 1))))"

definition f64_round :: "rat \<Rightarrow> rat" where
  "f64_round x =
     (if x \<le> 0 then 0
      else let e = max (ilog2 x - 52) (- 1074)
           in of_int (round_even (x / pow2 e)) * pow2 e)"

subsection \<open>strconv.ParseFloat\<close>

text \<open>
  \<^verbatim>\<open>strconv.ParseFloat(s, 64)\<close> on a decimal literal: optional sign, digits with an
  optional point (at least one digit in all), optional exponent (\<^verbatim>\<open>e\<close> or \<^verbatim>\<open>E\<close>, optional
  sign, at least one digit; the exponent stops accumulating once it has reached 10000, as
  in \<^verbatim>\<open>readFloat\<close>). The result is the nearest \<^verbatim>\<open>float64\<close>; a literal that rounds
  beyond the largest finite value is the range error. The other spellings
  \<^verbatim>\<open>ParseFloat\<close> accepts (hexadecimal, \<^verbatim>\<open>inf\<close>, \<^verbatim>\<open>nan\<close>, underscores) never reach it from
  the JSON scanner and are errors here.
\<close>

definition exp_val :: "string \<Rightarrow> nat" where
  "exp_val s = foldl (\<lambda>e c. if e < 10000 then e * 10 + digit_val c else e) 0 s"

definition read_exponent :: "string \<Rightarrow> int option" where
  "read_exponent s =
     (case s of
        [] \<Rightarrow> Some 0
      | c # t \<Rightarrow>
          if c = CHR ''e'' \<or> c = CHR ''E'' then
            (case split_sign t of (eneg, ds) \<Rightarrow>
               if ds = [] \<or> \<not> list_all is_digit ds then None
               else Some (if eneg then - int (exp_val ds) else int (exp_val ds)))
          else None)"

definition read_decimal :: "string \<Rightarrow> (bool \<times> rat) option" where
  "read_decimal s =
     (case split_sign s of (neg, s1) \<Rightarrow>
        let d1 = takeWhile is_digit s1;
            s2 = dropWhile is_digit s1;
            point = (s2 \<noteq> [] \<and> hd s2 = CHR ''.'');
            d2 = (if point then takeWhile is_digit (tl s2) else []);
            s3 = (if point then dropWhile is_digit (tl s2) else s2)
        in if d1 = [] \<and> d2 = [] then None
           else (case read_exponent s3 of
                   None \<Rightarrow> None
                 | Some e \<Rightarrow>
                     Some (neg, of_nat (digits_val (d1 @ d2)) / 10 ^ length d2
                                * (if 0 \<le> e then 10 ^ nat e else 1 / 10 ^ nat (- e)))))"

definition strconv_ParseFloat :: "string \<Rightarrow> float64 option" where
  "strconv_ParseFloat s =
     (case read_decimal s of
        None \<Rightarrow> None
      | Some (neg, x) \<Rightarrow>
          if f64_round x < 2 ^ 1024
          then Some \<lparr>negative = neg, magnitude = f64_round x\<rparr>
          else None)"

subsection \<open>fmt.Sprintf with the verb %f\<close>

text \<open>
  \<^verbatim>\<open>%f\<close> prints a finite float with six digits after the point: the exact value is
  rounded to a multiple of \<open>10\<^sup>-\<^sup>6\<close>, ties to even (\<^verbatim>\<open>strconv\<close>'s exact decimal conversion),
  and a negative float, also negative zero, gets a leading minus sign.
\<close>

definition digit_char :: "nat \<Rightarrow> char" where
  "digit_char d = char_of (48 + d)"

fun show_nat :: "nat \<Rightarrow> string" where
  "show_nat n = (if n < 10 then [digit_char n] else show_nat (n div 10) @ [digit_char (n mod 10)])"

declare show_nat.simps [simp del]

definition six_digits :: "nat \<Rightarrow> string" where
  "six_digits n = map (\<lambda>k. digit_char (n div 10 ^ k mod 10)) [5, 4, 3, 2, 1, 0]"

definition micros :: "float64 \<Rightarrow> nat" where
  "micros x = nat (round_even (magnitude x * 10 ^ 6))"

definition Sprintf_f :: "float64 \<Rightarrow> string" where
  "Sprintf_f x =
     (if negative x then ''-'' else [])
     @ show_nat (micros x div 10 ^ 6) @ ''.'' @ six_digits (micros x mod 10 ^ 6)"

subsection \<open>strings.Contains\<close>

fun HasPrefix :: "string \<Rightarrow> string \<Rightarrow> bool" where
  "HasPrefix s [] = True"
| "HasPrefix [] (p # ps) = False"
| "HasPrefix (c # s) (p # ps) = (c = p \<and> HasPrefix s ps)"

fun Contains :: "string \<Rightarrow> string \<Rightarrow> bool" where
  "Contains [] sub = (sub = [])"
| "Contains (c # s) sub = (HasPrefix (c # s) sub \<or> Contains s sub)"

subsection \<open>time.ParseDuration\<close>

text \<open>
  A \<^verbatim>\<open>time.Duration\<close> is an \<^verbatim>\<open>int64\<close> count of nanoseconds. \<^verbatim>\<open>ParseDuration\<close> computes in
  \<^verbatim>\<open>uint64\<close>; every multiplication and addition but one is guarded against overflow
  before it is made, so natural numbers model them, and the one unguarded addition
  (\<^verbatim>\<open>d += v\<close>) is written with its wrap-around. The function returns the pair of a
  duration and an error; the duration is \<open>0\<close> whenever the error is not \<^verbatim>\<open>nil\<close>. The
  error is its message.
\<close>

definition lowerhex :: "nat \<Rightarrow> char" where
  "lowerhex n = ''0123456789abcdef'' ! n"

text \<open>
  \<^verbatim>\<open>quote\<close> of package \<^verbatim>\<open>time\<close>: double quotes around the string, a backslash before a
  double quote or a backslash, and \<^verbatim>\<open>\xNN\<close> for every byte of a control or non-ASCII
  character.
\<close>

definition quote_byte :: "char \<Rightarrow> string" where
  "quote_byte c =
     (if 128 \<le> byte c \<or> byte c < 32
      then [CHR 0x5C, CHR ''x'', lowerhex (byte c div 16), lowerhex (byte c mod 16)]
      else if c = CHR 0x22 \<or> c = CHR 0x5C then [CHR 0x5C, c]
      else [c])"

definition quote :: "string \<Rightarrow> string" where
  "quote s = [CHR 0x22] @ concat (map quote_byte s) @ [CHR 0x22]"

definition unitMap :: "string \<rightharpoonup> nat" where
  "unitMap = map_of
     [(''ns'', 1),
      (''us'', 1000),
      ([CHR 0xC2, CHR 0xB5, CHR ''s''], 1000),
      ([CHR 0xCE, CHR 0xBC, CHR ''s''], 1000),
      (''ms'', 1000000),
      (''s'', 1000000000),
      (''m'', 60000000000),
      (''h'', 3600000000000)]"

text \<open>\<^verbatim>\<open>leadingInt\<close>: the leading digits as a number and the rest; \<open>None\<close> is \<^verbatim>\<open>errLeadingInt\<close>.\<close>

fun leadingInt_loop :: "nat \<Rightarrow> string \<Rightarrow> (nat \<times> string) option" where
  "leadingInt_loop x [] = Some (x, [])"
| "leadingInt_loop x (c # s) =
     (if \<not> is_digit c then Some (x, c # s)
      else if 2 ^ 63 div 10 < x then None
      else if 2 ^ 63 < x * 10 + digit_val c then None
      else leadingInt_loop (x * 10 + digit_val c) s)"

definition leadingInt :: "string \<Rightarrow> (nat \<times> string) option" where
  "leadingInt s = leadingInt_loop 0 s"

text \<open>
  \<^verbatim>\<open>leadingFraction\<close>: the leading digits as a number, the power of ten that scales it
  (a \<^verbatim>\<open>float64\<close>), and the rest. Digits that no longer fit are read and dropped.
\<close>

fun leadingFraction_loop :: "nat \<Rightarrow> rat \<Rightarrow> bool \<Rightarrow> string \<Rightarrow> nat \<times> rat \<times> string" where
  "leadingFraction_loop x scale overflow [] = (x, scale, [])"
| "leadingFraction_loop x scale overflow (c # s) =
     (if \<not> is_digit c then (x, scale, c # s)
      else if overflow then leadingFraction_loop x scale overflow s
      else if (2 ^ 63 - 1) div 10 < x then leadingFraction_loop x scale True s
      else if 2 ^ 63 < x * 10 + digit_val c then leadingFraction_loop x scale True s
      else leadingFraction_loop (x * 10 + digit_val c) (f64_round (scale * 10)) overflow s)"

definition leadingFraction :: "string \<Rightarrow> nat \<times> rat \<times> string" where
  "leadingFraction s = leadingFraction_loop 0 1 False s"

definition invalid_duration :: "string \<Rightarrow> string" where
  "invalid_duration orig = ''time: invalid duration '' @ quote orig"

definition is_unit_char :: "char \<Rightarrow> bool" where
  "is_unit_char c = (\<not> (c = CHR ''.'' \<or> is_digit c))"

text \<open>
  One pass of the loop body of \<^verbatim>\<open>ParseDuration\<close> over the nonempty rest \<open>s\<close>: a number
  with an optional fraction and a unit. It yields the nanoseconds of this element and
  the rest of the string, or the error message.
\<close>

definition element :: "string \<Rightarrow> string \<Rightarrow> string + nat \<times> string" where
  "element orig s =
     (if \<not> (hd s = CHR ''.'' \<or> is_digit (hd s)) then Inl (invalid_duration orig)
      else
        (case leadingInt s of
           None \<Rightarrow> Inl (invalid_duration orig)
         | Some (v, s1) \<Rightarrow>
             (case (if s1 \<noteq> [] \<and> hd s1 = CHR ''.''
                    then (case leadingFraction (tl s1) of
                            (f, scale, s2) \<Rightarrow> (f, scale, s2, length (tl s1) \<noteq> length s2))
                    else (0, 1, s1, False)) of
                (f, scale, s2, post) \<Rightarrow>
                  if \<not> (length s \<noteq> length s1) \<and> \<not> post then Inl (invalid_duration orig)
                  else if takeWhile is_unit_char s2 = []
                  then Inl (''time: missing unit in duration '' @ quote orig)
                  else
                    (case unitMap (takeWhile is_unit_char s2) of
                       None \<Rightarrow>
                         Inl (''time: unknown unit '' @ quote (takeWhile is_unit_char s2)
                              @ '' in duration '' @ quote orig)
                     | Some unit \<Rightarrow>
                         if 2 ^ 63 div unit < v then Inl (invalid_duration orig)
                         else if 0 < f
                         then (let v' = v * unit
                                   + nat \<lfloor>f64_round (f64_round (of_nat f)
                                                        * f64_round (of_nat unit / scale))\<rfloor>
                               in if 2 ^ 63 < v' then Inl (invalid_duration orig)
                                  else Inr (v', dropWhile is_unit_char s2))
                         else Inr (v * unit, dropWhile is_unit_char s2)))))"

function elements :: "string \<Rightarrow> nat \<Rightarrow> string \<Rightarrow> string + nat" where
  "elements orig d s =
     (if s = [] then Inr d
      else
        (case element orig s of
           Inl msg \<Rightarrow> Inl msg
         | Inr (v, s') \<Rightarrow>
             if 2 ^ 63 < (d + v) mod 2 ^ 64 then Inl (invalid_duration orig)
             else elements orig ((d + v) mod 2 ^ 64) s'))"
  by pat_completeness auto

lemma leadingInt_loop_length:
  "leadingInt_loop x s = Some (v, r) \<Longrightarrow> length r \<le> length s"
  by (induction x s rule: leadingInt_loop.induct) (auto split: if_splits)

lemma leadingFraction_loop_length:
  "leadingFraction_loop x scale ov s = (f, sc, r) \<Longrightarrow> length r \<le> length s"
  by (induction x scale ov s rule: leadingFraction_loop.induct) (auto split: if_splits)

lemma dropWhile_shorter:
  "takeWhile P s \<noteq> [] \<Longrightarrow> length (dropWhile P s) < length s"
  by (cases s) (auto simp: le_imp_less_Suc length_dropWhile_le split: if_splits)

lemma element_shorter:
  assumes "element orig s = Inr (v, s')"
  shows "length s' < length s"
proof -
  from assms obtain v0 s1 where li: "leadingInt s = Some (v0, s1)"
    by (auto simp: element_def split: if_splits option.splits)
  have l1: "length s1 \<le> length s"
    using li unfolding leadingInt_def by (rule leadingInt_loop_length)
  obtain f scale s2 post where fr:
    "(if s1 \<noteq> [] \<and> hd s1 = CHR ''.''
      then (case leadingFraction (tl s1) of
              (f, scale, s2) \<Rightarrow> (f, scale, s2, length (tl s1) \<noteq> length s2))
      else (0, 1, s1, False)) = (f, scale, s2, post)"
    by (cases "(if s1 \<noteq> [] \<and> hd s1 = CHR ''.''
      then (case leadingFraction (tl s1) of
              (f, scale, s2) \<Rightarrow> (f, scale, s2, length (tl s1) \<noteq> length s2))
      else (0, 1, s1, False))") auto
  have l2: "length s2 \<le> length s1"
  proof (cases "s1 \<noteq> [] \<and> hd s1 = CHR ''.''")
    case True
    with fr obtain f' sc' where "leadingFraction (tl s1) = (f', sc', s2)"
      by (auto split: prod.splits)
    then have "length s2 \<le> length (tl s1)"
      unfolding leadingFraction_def by (rule leadingFraction_loop_length)
    then show ?thesis by simp
  next
    case False
    with fr show ?thesis by auto
  qed
  from assms li fr have u: "takeWhile is_unit_char s2 \<noteq> []" and s': "s' = dropWhile is_unit_char s2"
    by (auto simp: element_def Let_def split: if_splits option.splits)
  from u have "length (dropWhile is_unit_char s2) < length s2"
    by (rule dropWhile_shorter)
  with l1 l2 s' show ?thesis by simp
qed

termination elements
  by (relation "measure (\<lambda>(orig, d, s). length s)") (auto dest: element_shorter)

declare elements.simps [simp del]

definition time_ParseDuration :: "string \<Rightarrow> int \<times> string option" where
  "time_ParseDuration orig =
     (case split_sign orig of (neg, s) \<Rightarrow>
        if s = ''0'' then (0, None)
        else if s = [] then (0, Some (invalid_duration orig))
        else
          (case elements orig 0 s of
             Inl msg \<Rightarrow> (0, Some msg)
           | Inr d \<Rightarrow>
               if neg then (- int d, None)
               else if 2 ^ 63 - 1 < d then (0, Some (invalid_duration orig))
               else (int d, None)))"

subsection \<open>Decoding into the struct of responseTime\<close>

text \<open>
  The local variable \<^verbatim>\<open>v\<close> of \<^verbatim>\<open>responseTime.UnmarshalJSON\<close>: a struct of a \<^verbatim>\<open>float64\<close>
  tagged \<^verbatim>\<open>time\<close> and a \<^verbatim>\<open>string\<close> tagged \<^verbatim>\<open>measure\<close>.
\<close>

record payload =
  Time :: float64
  Measure :: string

definition zero_payload :: payload where
  "zero_payload = \<lparr>Time = \<lparr>negative = False, magnitude = 0\<rparr>, Measure = []\<rparr>"

fun store_float64 :: "json \<Rightarrow> float64 \<Rightarrow> error option \<times> float64" where
  "store_float64 JNull v = (None, v)"
| "store_float64 (JNumber lit) v =
     (case strconv_ParseFloat lit of
        None \<Rightarrow> (Some (UnmarshalTypeError (''number '' @ lit)), v)
      | Some x \<Rightarrow> (None, x))"
| "store_float64 j v = (Some (UnmarshalTypeError (describe j)), v)"

fun store_string :: "json \<Rightarrow> string \<Rightarrow> error option \<times> string" where
  "store_string JNull v = (None, v)"
| "store_string (JString s) v = (None, s)"
| "store_string j v = (Some (UnmarshalTypeError (describe j)), v)"

text \<open>
  An object key selects the field whose name it equals, or else the field whose name it
  equals after \<^verbatim>\<open>foldName\<close>. Folding maps every character to the least one of its
  case-folding orbit: an ASCII letter to its capital, and, of all other characters, only
  U+017F (long s) and U+212A (Kelvin sign) to an ASCII letter (\<^verbatim>\<open>S\<close> and \<^verbatim>\<open>K\<close>). The
  other non-ASCII characters fold among themselves and are left as they are here: no
  field name has one.
\<close>

fun foldName :: "string \<Rightarrow> string" where
  "foldName [] = []"
| "foldName (c # s) =
     (if 97 \<le> byte c \<and> byte c \<le> 122 then char_of (byte c - 32) # foldName s
      else if HasPrefix (c # s) [CHR 0xC5, CHR 0xBF] then CHR ''S'' # foldName (drop 1 s)
      else if HasPrefix (c # s) [CHR 0xE2, CHR 0x84, CHR 0xAA] then CHR ''K'' # foldName (drop 2 s)
      else c # foldName s)"

datatype field = FieldTime | FieldMeasure

definition find_field :: "string \<Rightarrow> field option" where
  "find_field key =
     (if key = ''time'' then Some FieldTime
      else if key = ''measure'' then Some FieldMeasure
      else if foldName key = ''TIME'' then Some FieldTime
      else if foldName key = ''MEASURE'' then Some FieldMeasure
      else None)"

text \<open>
  The members of an object are decoded in order; a value that does not fit its field is
  recorded (only the first such error is kept) and decoding goes on; a key that names
  no field is skipped.
\<close>

definition first_error :: "error option \<Rightarrow> error option \<Rightarrow> error option" where
  "first_error saved e = (case saved of None \<Rightarrow> e | Some x \<Rightarrow> Some x)"

fun store_members :: "(string \<times> json) list \<Rightarrow> error option \<times> payload \<Rightarrow> error option \<times> payload" where
  "store_members [] acc = acc"
| "store_members ((key, j) # kvs) (saved, v) =
     (case find_field key of
        None \<Rightarrow> store_members kvs (saved, v)
      | Some FieldTime \<Rightarrow>
          (case store_float64 j (Time v) of
             (e, x) \<Rightarrow> store_members kvs (first_error saved e, v\<lparr>Time := x\<rparr>))
      | Some FieldMeasure \<Rightarrow>
          (case store_string j (Measure v) of
             (e, x) \<Rightarrow> store_members kvs (first_error saved e, v\<lparr>Measure := x\<rparr>)))"

fun store_payload :: "json \<Rightarrow> payload \<Rightarrow> error option \<times> payload" where
  "store_payload JNull v = (None, v)"
| "store_payload (JObject kvs) v = store_members kvs (None, v)"
| "store_payload j v = (Some (UnmarshalTypeError (describe j)), v)"

fun Unmarshal_payload :: "data \<Rightarrow> payload \<Rightarrow> error option \<times> payload" where
  "Unmarshal_payload Invalid v = (Some SyntaxError, v)"
| "Unmarshal_payload (Valid j) v = store_payload j v"

subsection \<open>responseTime.UnmarshalJSON\<close>

text \<open>The map \<^verbatim>\<open>timeUnits\<close>; indexing a Go map with a missing key gives the empty string.\<close>

definition timeUnits :: "string \<rightharpoonup> string" where
  "timeUnits = map_of
     [(''milliseconds'', ''ms''),
      (''seconds'', ''s''),
      (''minutes'', ''m'')]"

definition index_timeUnits :: "string \<Rightarrow> string" where
  "index_timeUnits m = (case timeUnits m of None \<Rightarrow> [] | Some u \<Rightarrow> u)"

definition responseTime_UnmarshalJSON :: "data \<Rightarrow> int \<Rightarrow> error option \<times> int" where
  "responseTime_UnmarshalJSON dat r =
     (case Unmarshal_payload dat zero_payload of
        (Some err, v) \<Rightarrow> (Some err, r)
      | (None, v) \<Rightarrow>
          (case time_ParseDuration (Sprintf_f (Time v) @ index_timeUnits (Measure v)) of
             (d, err) \<Rightarrow>
               if err \<noteq> None \<and> Contains (the err) ''time: missing unit in duration''
               then (Some errInvalidTimeUnit, r)
               else (map_option DurationError err, d)))"

subsection \<open>net/url: escaping\<close>

datatype encoding =
    encodePath
  | encodePathSegment
  | encodeHost
  | encodeZone
  | encodeUserPassword
  | encodeQueryComponent
  | encodeFragment

definition is_alpha :: "char \<Rightarrow> bool" where
  "is_alpha c = (97 \<le> byte c \<and> byte c \<le> 122 \<or> 65 \<le> byte c \<and> byte c \<le> 90)"

definition ishex :: "char \<Rightarrow> bool" where
  "ishex c = (is_digit c \<or> 97 \<le> byte c \<and> byte c \<le> 102 \<or> 65 \<le> byte c \<and> byte c \<le> 70)"

definition unhex :: "char \<Rightarrow> nat" where
  "unhex c =
     (if is_digit c then byte c - 48
      else if 97 \<le> byte c \<and> byte c \<le> 102 then byte c - 97 + 10
      else if 65 \<le> byte c \<and> byte c \<le> 70 then byte c - 65 + 10
      else 0)"

definition upperhex :: "nat \<Rightarrow> char" where
  "upperhex n = ''0123456789ABCDEF'' ! n"

definition shouldEscape :: "char \<Rightarrow> encoding \<Rightarrow> bool" where
  "shouldEscape c mode =
     (if is_alpha c \<or> is_digit c then False
      else if (mode = encodeHost \<or> mode = encodeZone)
              \<and> c \<in> set (''!$&()*+,;=:[]<>'' @ [CHR 0x27, CHR 0x22]) then False
      else if c \<in> set ''-_.~'' then False
      else if c \<in> set ''$&+,/:;=?@'' \<and> mode = encodePath then c = CHR ''?''
      else if c \<in> set ''$&+,/:;=?@'' \<and> mode = encodePathSegment
        then c = CHR ''/'' \<or> c = CHR '';'' \<or> c = CHR '','' \<or> c = CHR ''?''
      else if c \<in> set ''$&+,/:;=?@'' \<and> mode = encodeUserPassword
        then c = CHR ''@'' \<or> c = CHR ''/'' \<or> c = CHR ''?'' \<or> c = CHR '':''
      else if c \<in> set ''$&+,/:;=?@'' \<and> mode = encodeQueryComponent then True
      else if c \<in> set ''$&+,/:;=?@'' \<and> mode = encodeFragment then False
      else if mode = encodeFragment \<and> c \<in> set ''!()*'' then False
      else True)"

text \<open>
  \<^verbatim>\<open>unescape\<close> checks the string from left to right and then rewrites it; the first
  offending place decides the error, so one pass that checks before it rewrites gives the
  same result.
\<close>

fun unescape :: "string \<Rightarrow> encoding \<Rightarrow> url_error + string" where
  "unescape [] mode = Inr []"
| "unescape (c # s) mode =
     (if c = CHR ''%'' then
        (case s of
           h1 # h2 # t \<Rightarrow>
             if \<not> ishex h1 \<or> \<not> ishex h2 then Inl (EscapeError [c, h1, h2])
             else if mode = encodeHost \<and> unhex h1 < 8 \<and> [h1, h2] \<noteq> ''25''
               then Inl (EscapeError [c, h1, h2])
             else if mode = encodeZone \<and> [h1, h2] \<noteq> ''25''
                     \<and> unhex h1 * 16 + unhex h2 \<noteq> 32
                     \<and> shouldEscape (char_of (unhex h1 * 16 + unhex h2)) encodeHost
               then Inl (EscapeError [c, h1, h2])
             else (case unescape t mode of
                     Inl e \<Rightarrow> Inl e
                   | Inr u \<Rightarrow> Inr (char_of (unhex h1 * 16 + unhex h2) # u))
         | _ \<Rightarrow> Inl (EscapeError (c # s)))
      else if c = CHR ''+'' then
        (case unescape s mode of
           Inl e \<Rightarrow> Inl e
         | Inr u \<Rightarrow> Inr ((if mode = encodeQueryComponent then CHR '' '' else CHR ''+'') # u))
      else if (mode = encodeHost \<or> mode = encodeZone) \<and> byte c < 128 \<and> shouldEscape c encodeHost
        then Inl (InvalidHostError [c])
      else (case unescape s mode of
              Inl e \<Rightarrow> Inl e
            | Inr u \<Rightarrow> Inr (c # u)))"

definition escape_byte :: "encoding \<Rightarrow> char \<Rightarrow> string" where
  "escape_byte mode c =
     (if c = CHR '' '' \<and> mode = encodeQueryComponent then ''+''
      else if shouldEscape c mode then [CHR ''%'', upperhex (byte c div 16), upperhex (byte c mod 16)]
      else [c])"

definition escape :: "string \<Rightarrow> encoding \<Rightarrow> string" where
  "escape s mode = concat (map (escape_byte mode) s)"

subsection \<open>net/url: Parse\<close>

record Userinfo =
  username :: string
  password :: string
  passwordSet :: bool

record URL =
  Scheme :: string
  Opaque :: string
  User :: "Userinfo option"
  Host :: string
  Path :: string
  RawPath :: string
  OmitHost :: bool
  ForceQuery :: bool
  RawQuery :: string
  Fragment :: string
  RawFragment :: string

definition new_URL :: URL where
  "new_URL = \<lparr>Scheme = [], Opaque = [], User = None, Host = [], Path = [], RawPath = [],
     OmitHost = False, ForceQuery = False, RawQuery = [], Fragment = [], RawFragment = []\<rparr>"

text \<open>\<^verbatim>\<open>strings.Index\<close>, \<^verbatim>\<open>strings.LastIndex\<close> (\<open>None\<close> for \<open>-1\<close>) and \<^verbatim>\<open>strings.Cut\<close>.\<close>

fun Index :: "string \<Rightarrow> string \<Rightarrow> nat option" where
  "Index [] sub = (if sub = [] then Some 0 else None)"
| "Index (c # s) sub =
     (if HasPrefix (c # s) sub then Some 0 else map_option Suc (Index s sub))"

fun LastIndex :: "string \<Rightarrow> string \<Rightarrow> nat option" where
  "LastIndex [] sub = (if sub = [] then Some 0 else None)"
| "LastIndex (c # s) sub =
     (case LastIndex s sub of
        Some i \<Rightarrow> Some (Suc i)
      | None \<Rightarrow> if HasPrefix (c # s) sub then Some 0 else None)"

definition Cut :: "string \<Rightarrow> string \<Rightarrow> string \<times> string \<times> bool" where
  "Cut s sep =
     (case Index s sep of
        None \<Rightarrow> (s, [], False)
      | Some i \<Rightarrow> (take i s, drop (i + length sep) s, True))"

definition stringContainsCTLByte :: "string \<Rightarrow> bool" where
  "stringContainsCTLByte s = list_ex (\<lambda>b. byte b < 32 \<or> byte b = 127) s"

fun getScheme_loop :: "string \<Rightarrow> string \<Rightarrow> string \<Rightarrow> url_error + string \<times> string" where
  "getScheme_loop rawURL pre [] = Inr ([], rawURL)"
| "getScheme_loop rawURL pre (c # s) =
     (if is_alpha c then getScheme_loop rawURL (pre @ [c]) s
      else if is_digit c \<or> c = CHR ''+'' \<or> c = CHR ''-'' \<or> c = CHR ''.'' then
        (if pre = [] then Inr ([], rawURL) else getScheme_loop rawURL (pre @ [c]) s)
      else if c = CHR '':'' then
        (if pre = [] then Inl MissingProtocolScheme else Inr (pre, s))
      else Inr ([], rawURL))"

definition getScheme :: "string \<Rightarrow> url_error + string \<times> string" where
  "getScheme rawURL = getScheme_loop rawURL [] rawURL"

definition ToLower :: "string \<Rightarrow> string" where
  "ToLower s = map (\<lambda>c. if 65 \<le> byte c \<and> byte c \<le> 90 then char_of (byte c + 32) else c) s"

definition validOptionalPort :: "string \<Rightarrow> bool" where
  "validOptionalPort port =
     (case port of
        [] \<Rightarrow> True
      | c # ds \<Rightarrow> c = CHR '':'' \<and> list_all is_digit ds)"

definition validUserinfo :: "string \<Rightarrow> bool" where
  "validUserinfo s =
     list_all (\<lambda>c. is_alpha c \<or> is_digit c \<or> c \<in> set (''-._:~!$&()*+,;=%@'' @ [CHR 0x27])) s"

definition parseHost :: "string \<Rightarrow> url_error + string" where
  "parseHost host =
     (if HasPrefix host ''['' then
        (case LastIndex host '']'' of
           None \<Rightarrow> Inl MissingBracket
         | Some i \<Rightarrow>
             if \<not> validOptionalPort (drop (i + 1) host) then Inl (InvalidPort (drop (i + 1) host))
             else
               (case Index (take i host) ''%25'' of
                  None \<Rightarrow> unescape host encodeHost
                | Some zone \<Rightarrow>
                    (case unescape (take zone host) encodeHost of
                       Inl e \<Rightarrow> Inl e
                     | Inr host1 \<Rightarrow>
                         (case unescape (drop zone (take i host)) encodeZone of
                            Inl e \<Rightarrow> Inl e
                          | Inr host2 \<Rightarrow>
                              (case unescape (drop i host) encodeHost of
                                 Inl e \<Rightarrow> Inl e
                               | Inr host3 \<Rightarrow> Inr (host1 @ host2 @ host3))))))
      else
        (case LastIndex host '':'' of
           None \<Rightarrow> unescape host encodeHost
         | Some i \<Rightarrow>
             if \<not> validOptionalPort (drop i host) then Inl (InvalidPort (drop i host))
             else unescape host encodeHost))"

definition parseAuthority :: "string \<Rightarrow> url_error + Userinfo option \<times> string" where
  "parseAuthority authority =
     (case LastIndex authority ''@'' of
        None \<Rightarrow>
          (case parseHost authority of
             Inl e \<Rightarrow> Inl e
           | Inr host \<Rightarrow> Inr (None, host))
      | Some i \<Rightarrow>
          (case parseHost (drop (i + 1) authority) of
             Inl e \<Rightarrow> Inl e
           | Inr host \<Rightarrow>
               if \<not> validUserinfo (take i authority) then Inl InvalidUserinfo
               else if \<not> Contains (take i authority) '':'' then
                 (case unescape (take i authority) encodeUserPassword of
                    Inl e \<Rightarrow> Inl e
                  | Inr u \<Rightarrow> Inr (Some \<lparr>username = u, password = [], passwordSet = False\<rparr>, host))
               else
                 (case Cut (take i authority) '':'' of (name, pass, found) \<Rightarrow>
                    (case unescape name encodeUserPassword of
                       Inl e \<Rightarrow> Inl e
                     | Inr u \<Rightarrow>
                         (case unescape pass encodeUserPassword of
                            Inl e \<Rightarrow> Inl e
                          | Inr p \<Rightarrow>
                              Inr (Some \<lparr>username = u, password = p, passwordSet = True\<rparr>,
                                   host))))))"

definition setPath :: "URL \<Rightarrow> string \<Rightarrow> url_error + URL" where
  "setPath u p =
     (case unescape p encodePath of
        Inl e \<Rightarrow> Inl e
      | Inr path \<Rightarrow>
          Inr (u\<lparr>Path := path, RawPath := (if p = escape path encodePath then [] else p)\<rparr>))"

definition setFragment :: "URL \<Rightarrow> string \<Rightarrow> url_error + URL" where
  "setFragment u f =
     (case unescape f encodeFragment of
        Inl e \<Rightarrow> Inl e
      | Inr frag \<Rightarrow>
          Inr (u\<lparr>Fragment := frag,
                 RawFragment := (if f = escape frag encodeFragment then [] else f)\<rparr>))"

text \<open>
  \<^verbatim>\<open>parse\<close>, after the scheme has been split off: \<open>rest0\<close> is what follows the scheme
  and \<open>u\<close> the URL with its scheme set.
\<close>

definition parse_rest :: "URL \<Rightarrow> string \<Rightarrow> bool \<Rightarrow> url_error + URL" where
  "parse_rest u0 rest0 viaRequest =
     (case (if rest0 \<noteq> [] \<and> last rest0 = CHR ''?'' \<and> count_list rest0 (CHR ''?'') = 1
            then (u0\<lparr>ForceQuery := True\<rparr>, butlast rest0)
            else (case Cut rest0 ''?'' of (before, after, found) \<Rightarrow>
                    (u0\<lparr>RawQuery := after\<rparr>, before))) of
        (u, rest) \<Rightarrow>
          if \<not> HasPrefix rest ''/'' \<and> Scheme u \<noteq> [] then Inr (u\<lparr>Opaque := rest\<rparr>)
          else if \<not> HasPrefix rest ''/'' \<and> viaRequest then Inl InvalidURIForRequest
          else if \<not> HasPrefix rest ''/'' \<and> Contains (fst (Cut rest ''/'')) '':''
            then Inl FirstPathSegmentColon
          else if (Scheme u \<noteq> [] \<or> \<not> viaRequest \<and> \<not> HasPrefix rest ''///'')
                  \<and> HasPrefix rest ''//''
          then
            (case (case Index (drop 2 rest) ''/'' of
                     None \<Rightarrow> (drop 2 rest, [])
                   | Some i \<Rightarrow> (take i (drop 2 rest), drop i (drop 2 rest))) of
               (authority, rest') \<Rightarrow>
                 (case parseAuthority authority of
                    Inl e \<Rightarrow> Inl e
                  | Inr (user, host) \<Rightarrow> setPath (u\<lparr>User := user, Host := host\<rparr>) rest'))
          else if Scheme u \<noteq> [] \<and> HasPrefix rest ''/''
            then setPath (u\<lparr>OmitHost := True\<rparr>) rest
          else setPath u rest)"

definition parse :: "string \<Rightarrow> bool \<Rightarrow> url_error + URL" where
  "parse rawURL viaRequest =
     (if stringContainsCTLByte rawURL then Inl InvalidControlCharacter
      else if rawURL = [] \<and> viaRequest then Inl EmptyURL
      else if rawURL = ''*'' then Inr (new_URL\<lparr>Path := ''*''\<rparr>)
      else
        (case getScheme rawURL of
           Inl e \<Rightarrow> Inl e
         | Inr (scheme, rest) \<Rightarrow> parse_rest (new_URL\<lparr>Scheme := ToLower scheme\<rparr>) rest viaRequest))"

definition url_Parse :: "string \<Rightarrow> url_error + URL" where
  "url_Parse rawURL =
     (case Cut rawURL ''#'' of (u, frag, found) \<Rightarrow>
        (case parse u False of
           Inl e \<Rightarrow> Inl e
         | Inr url \<Rightarrow> if frag = [] then Inr url else setFragment url frag))"

subsection \<open>responseURL.UnmarshalJSON\<close>

fun Unmarshal_string :: "data \<Rightarrow> string \<Rightarrow> error option \<times> string" where
  "Unmarshal_string Invalid v = (Some SyntaxError, v)"
| "Unmarshal_string (Valid j) v = store_string j v"

definition responseURL_UnmarshalJSON :: "data \<Rightarrow> URL \<Rightarrow> error option \<times> URL" where
  "responseURL_UnmarshalJSON dat r =
     (case Unmarshal_string dat [] of
        (Some err, v) \<Rightarrow> (Some err, r)
      | (None, v) \<Rightarrow>
          (case url_Parse v of
             Inl err \<Rightarrow> (Some (URLError err), r)
           | Inr u \<Rightarrow> (None, u)))"

subsection \<open>responseBool.UnmarshalJSON\<close>

definition responseBool_UnmarshalJSON :: "data \<Rightarrow> bool \<Rightarrow> error option \<times> bool" where
  "responseBool_UnmarshalJSON dat r =
     (case Unmarshal_int dat 0 of
        (Some err, v) \<Rightarrow> (Some err, r)
      | (None, v) \<Rightarrow>
          if v = 0 then (None, False)
          else if v = 1 then (None, True)
          else (Some errInvalidBool, r))"

section \<open>Properties of the library models\<close>

subsection \<open>Rounding to float64 and decimal digits\<close>


lemma round_even_of_int: "round_even (of_int z) = z"
  by (simp add: round_even_def)

lemma f64_round_of_nat:
  assumes "n < 2 ^ 53"
  shows "f64_round (of_nat n) = of_nat n"
proof (cases "n = 0")
  case True
  then show ?thesis by (simp add: f64_round_def)
next
  case False
  then have pos: "0 < n" by simp
  have fl: "floorlog 2 n \<le> 53"
    using assms by (simp add: floorlog_le_iff)
  have one: "(1::rat) \<le> of_nat n" using pos by simp
  have il: "ilog2 (of_nat n) \<le> 52"
    using fl one by (simp add: ilog2_def)
  define e where "e = max (ilog2 (of_nat n) - 52) (- 1074)"
  have e: "e \<le> 0" using il by (simp add: e_def)
  have p: "pow2 e = 1 / 2 ^ nat (- e)"
    using e by (cases "e = 0") (simp_all add: pow2_def)
  have "of_nat n / pow2 e = (of_int (int n * 2 ^ nat (- e)) :: rat)"
    by (simp add: p)
  then have r: "round_even (of_nat n / pow2 e) = int n * 2 ^ nat (- e)"
    by (simp only: round_even_of_int)
  have "f64_round (of_nat n) = of_int (round_even (of_nat n / pow2 e)) * pow2 e"
    using pos by (simp add: f64_round_def e_def Let_def)
  also have "\<dots> = of_nat n"
    unfolding r by (simp add: p)
  finally show ?thesis .
qed

lemma byte_digit_char: "d < 10 \<Longrightarrow> byte (digit_char d) = 48 + d"
  by (simp add: byte_def digit_char_def)

lemma is_digit_digit_char: "d < 10 \<Longrightarrow> is_digit (digit_char d)"
  by (simp add: is_digit_def byte_digit_char)

lemma digit_val_digit_char: "d < 10 \<Longrightarrow> digit_val (digit_char d) = d"
  by (simp add: digit_val_def byte_digit_char)

lemma show_nat_digits: "list_all is_digit (show_nat n)"
proof (induction n rule: show_nat.induct)
  case (1 n)
  show ?case
  proof (cases "n < 10")
    case True
    then show ?thesis by (subst show_nat.simps) (simp add: is_digit_digit_char)
  next
    case False
    with 1 show ?thesis by (subst show_nat.simps) (simp add: is_digit_digit_char)
  qed
qed

lemma show_nat_nonempty: "show_nat n \<noteq> []"
  by (subst show_nat.simps) simp

lemma digits_val_snoc: "digits_val (ds @ [c]) = digits_val ds * 10 + digit_val c"
  by (simp add: digits_val_def)

lemma digits_val_show_nat: "digits_val (show_nat n) = n"
proof (induction n rule: show_nat.induct)
  case (1 n)
  show ?case
  proof (cases "n < 10")
    case True
    then show ?thesis
      by (subst show_nat.simps) (simp add: digits_val_def digit_val_digit_char)
  next
    case False
    with 1 have "digits_val (show_nat (n div 10)) = n div 10" by simp
    with False show ?thesis
      by (subst show_nat.simps) (simp add: digits_val_snoc digit_val_digit_char)
  qed
qed

subsection \<open>Reading digits back\<close>


lemma foldl_digits_ge: "x \<le> foldl (\<lambda>x c. x * 10 + digit_val c) x ds"
proof (induction ds arbitrary: x)
  case Nil
  show ?case by simp
next
  case (Cons c ds)
  have "x \<le> x * 10 + digit_val c" by simp
  also have "\<dots> \<le> foldl (\<lambda>x c. x * 10 + digit_val c) (x * 10 + digit_val c) ds"
    by (rule Cons.IH)
  finally show ?case by simp
qed

lemma leadingInt_loop_digits:
  assumes "list_all is_digit ds" and "r = [] \<or> \<not> is_digit (hd r)"
    and "foldl (\<lambda>x c. x * 10 + digit_val c) x ds \<le> 2 ^ 63"
  shows "leadingInt_loop x (ds @ r) = Some (foldl (\<lambda>x c. x * 10 + digit_val c) x ds, r)"
  using assms
proof (induction ds arbitrary: x)
  case Nil
  then show ?case by (cases r) auto
next
  case (Cons c ds)
  let ?y = "x * 10 + digit_val c"
  have le: "?y \<le> 2 ^ 63"
    using foldl_digits_ge[of ?y ds] Cons.prems(3) by simp
  then have "x * 10 \<le> 2 ^ 63" by simp
  then have x: "\<not> 2 ^ 63 div 10 < x" by simp
  have "leadingInt_loop ?y (ds @ r) = Some (foldl (\<lambda>x c. x * 10 + digit_val c) ?y ds, r)"
    using Cons.prems by (intro Cons.IH) simp_all
  with Cons.prems(1) x le show ?case by simp
qed

lemma leadingFraction_loop_digits:
  assumes "list_all is_digit ds" and "r = [] \<or> \<not> is_digit (hd r)"
    and "foldl (\<lambda>x c. x * 10 + digit_val c) x ds < 10 ^ 15"
    and "k + length ds \<le> 15"
  shows "leadingFraction_loop x (10 ^ k) False (ds @ r)
           = (foldl (\<lambda>x c. x * 10 + digit_val c) x ds, 10 ^ (k + length ds), r)"
  using assms
proof (induction ds arbitrary: x k)
  case Nil
  then show ?case by (cases r) auto
next
  case (Cons c ds)
  let ?y = "x * 10 + digit_val c"
  have le: "?y < 10 ^ 15"
    using foldl_digits_ge[of ?y ds] Cons.prems(3) by simp
  then have x: "\<not> (2 ^ 63 - 1) div 10 < x" and y: "\<not> 2 ^ 63 < ?y" by simp_all
  have "(10::nat) ^ Suc k \<le> 10 ^ 15"
    using Cons.prems(4) by (intro power_increasing) simp_all
  then have "(10::nat) ^ Suc k < 2 ^ 53" by simp
  then have "f64_round (of_nat (10 ^ Suc k)) = of_nat (10 ^ Suc k)"
    by (rule f64_round_of_nat)
  then have sc: "f64_round (10 ^ k * 10) = 10 ^ Suc k"
    by (simp add: mult.commute)
  have "leadingFraction_loop ?y (10 ^ Suc k) False (ds @ r)
          = (foldl (\<lambda>x c. x * 10 + digit_val c) ?y ds, 10 ^ (Suc k + length ds), r)"
    using Cons.prems by (intro Cons.IH) simp_all
  with Cons.prems(1) x y sc show ?case by simp
qed

lemma six_digits_digits: "list_all is_digit (six_digits n)"
  by (simp add: six_digits_def is_digit_digit_char)

lemma length_six_digits: "length (six_digits n) = 6"
  by (simp add: six_digits_def)


lemma foldl_digits_rev_upt:
  "foldl (\<lambda>x c. x * 10 + digit_val c) x (map (\<lambda>k. digit_char (n div 10 ^ k mod 10)) (rev [0..<k]))
     = x * 10 ^ k + n mod 10 ^ k"
proof (induction k arbitrary: x)
  case 0
  show ?case by simp
next
  case (Suc k)
  have m: "n mod 10 ^ Suc k = 10 ^ k * (n div 10 ^ k mod 10) + n mod 10 ^ k"
    using mod_mult2_eq[of n "10 ^ k" 10] by (simp add: mult.commute)
  have "foldl (\<lambda>x c. x * 10 + digit_val c) x
          (map (\<lambda>k. digit_char (n div 10 ^ k mod 10)) (rev [0..<Suc k]))
        = foldl (\<lambda>x c. x * 10 + digit_val c) (x * 10 + n div 10 ^ k mod 10)
          (map (\<lambda>k. digit_char (n div 10 ^ k mod 10)) (rev [0..<k]))"
    by (simp add: digit_val_digit_char)
  also have "\<dots> = (x * 10 + n div 10 ^ k mod 10) * 10 ^ k + n mod 10 ^ k"
    by (rule Suc.IH)
  also have "\<dots> = x * 10 ^ Suc k + n mod 10 ^ Suc k"
    using m by (simp add: algebra_simps)
  finally show ?case .
qed

lemma digits_val_six_digits: "n < 10 ^ 6 \<Longrightarrow> digits_val (six_digits n) = n"
proof -
  assume n: "n < 10 ^ 6"
  have "[5, 4, 3, 2, 1, 0] = rev [0..<6::nat]"
    by (simp add: upt_rec)
  then have "digits_val (six_digits n) = 0 * 10 ^ 6 + n mod 10 ^ 6"
    unfolding digits_val_def six_digits_def by (simp only: foldl_digits_rev_upt)
  with n show ?thesis by simp
qed

subsection \<open>One element of a duration string\<close>


lemma hd_show_nat_digit: "is_digit (hd (show_nat n))"
  using show_nat_digits[of n] show_nat_nonempty[of n] by (cases "show_nat n") simp_all

lemma frac_nanos:
  assumes "F < 10 ^ 6" and "c \<le> 60000"
  shows "nat \<lfloor>f64_round (f64_round (of_nat F) * f64_round (of_nat (c * 10 ^ 6) / 10 ^ 6))\<rfloor> = F * c"
proof -
  have "F * c \<le> 10 ^ 6 * 60000"
    using assms by (intro mult_mono) simp_all
  then have fc: "F * c < 2 ^ 53" by simp
  have f: "f64_round (of_nat F) = of_nat F"
    using assms(1) by (intro f64_round_of_nat) simp
  have "f64_round (of_nat c) = of_nat c"
    using assms(2) by (intro f64_round_of_nat) simp
  then have c: "f64_round (of_nat (c * 10 ^ 6) / 10 ^ 6) = of_nat c" by simp
  have fc': "f64_round (of_nat F * of_nat c) = of_nat (F * c)"
    using f64_round_of_nat[OF fc] by simp
  have "f64_round (f64_round (of_nat F) * f64_round (of_nat (c * 10 ^ 6) / 10 ^ 6))
          = of_nat (F * c)"
    by (simp only: f c fc')
  then show ?thesis by (simp only: floor_of_nat nat_int)
qed

lemma element_number_unit:
  assumes "is_digit (hd s)" and "leadingInt s = Some (v, CHR ''.'' # t)"
    and "leadingFraction t = (f, scale, r)" and "length t \<noteq> length r"
    and "takeWhile is_unit_char r = w" and "w \<noteq> []" and "dropWhile is_unit_char r = r'"
    and "unitMap w = Some unit" and "\<not> 2 ^ 63 div unit < v"
    and "fr = nat \<lfloor>f64_round (f64_round (of_nat f) * f64_round (of_nat unit / scale))\<rfloor>"
    and "v * unit + fr \<le> 2 ^ 63"
  shows "element orig s = Inr (if 0 < f then v * unit + fr else v * unit, r')"
  using assms by (simp add: element_def Let_def)

lemma element_formatted:
  assumes U: "unitMap u = Some (c * 10 ^ 6)" and u: "list_all is_unit_char u" "u \<noteq> []"
    and c: "c \<le> 60000" and F: "F < 10 ^ 6"
    and bound: "(I * 10 ^ 6 + F) * c \<le> 2 ^ 63" and c0: "0 < c"
  shows "element orig (show_nat I @ ''.'' @ six_digits F @ u) = Inr ((I * 10 ^ 6 + F) * c, [])"
proof -
  let ?s = "show_nat I @ ''.'' @ six_digits F @ u"
  have tw: "takeWhile is_unit_char u = u" and dw: "dropWhile is_unit_char u = []"
    using u(1) by (simp_all add: list_all_iff)
  have hu: "\<not> is_digit (hd u)"
    using u by (cases u) (simp_all add: is_unit_char_def)
  have "I * (c * 10 ^ 6) \<le> (I * 10 ^ 6 + F) * c" by (simp add: algebra_simps)
  from this bound have IU: "I * (c * 10 ^ 6) \<le> 2 ^ 63" by (rule order_trans)
  then have chk: "\<not> 2 ^ 63 div (c * 10 ^ 6) < I"
    using c0 by (simp add: less_eq_div_iff_mult_less_eq not_less)
  have "I * 1 \<le> I * (c * 10 ^ 6)" using c0 by (intro mult_le_mono2) simp
  from this IU have "I * 1 \<le> 2 ^ 63" by (rule order_trans)
  then have I: "I \<le> 2 ^ 63" by simp
  have hd: "is_digit (hd ?s)"
    using hd_show_nat_digit[of I] show_nat_nonempty[of I] by (cases "show_nat I") simp_all
  have "leadingInt_loop 0 (show_nat I @ (''.'' @ six_digits F @ u))
          = Some (foldl (\<lambda>x c. x * 10 + digit_val c) 0 (show_nat I), ''.'' @ six_digits F @ u)"
    using I digits_val_show_nat[of I]
    by (intro leadingInt_loop_digits) (simp_all add: show_nat_digits digits_val_def is_digit_def byte_def)
  then have li: "leadingInt ?s = Some (I, CHR ''.'' # (six_digits F @ u))"
    using digits_val_show_nat[of I] by (simp add: leadingInt_def digits_val_def)
  have "leadingFraction_loop 0 (10 ^ 0) False (six_digits F @ u)
          = (foldl (\<lambda>x c. x * 10 + digit_val c) 0 (six_digits F), 10 ^ (0 + length (six_digits F)), u)"
    using F hu u(2) digits_val_six_digits[OF F]
    by (intro leadingFraction_loop_digits) (simp_all add: six_digits_digits length_six_digits digits_val_def)
  then have lf: "leadingFraction (six_digits F @ u) = (F, 10 ^ 6, u)"
    using digits_val_six_digits[OF F] by (simp add: leadingFraction_def digits_val_def length_six_digits)
  have len: "length (six_digits F @ u) \<noteq> length u"
    by (simp add: length_six_digits)
  have fr: "F * c = nat \<lfloor>f64_round (f64_round (of_nat F) * f64_round (of_nat (c * 10 ^ 6) / 10 ^ 6))\<rfloor>"
    using frac_nanos[OF F c] by simp
  have total: "I * (c * 10 ^ 6) + F * c = (I * 10 ^ 6 + F) * c"
    by (simp add: algebra_simps)
  with bound have b: "I * (c * 10 ^ 6) + F * c \<le> 2 ^ 63" by simp
  have "element orig ?s
          = Inr (if 0 < F then I * (c * 10 ^ 6) + F * c else I * (c * 10 ^ 6), [])"
    using hd li lf len tw u(2) dw U chk fr b by (rule element_number_unit)
  also have "\<dots> = Inr ((I * 10 ^ 6 + F) * c, [])"
    by (cases "0 < F") (simp_all add: algebra_simps)
  finally show ?thesis .
qed

subsection \<open>The duration of a formatted float\<close>


lemma elements_formatted:
  assumes "unitMap u = Some (c * 10 ^ 6)" and "list_all is_unit_char u" and "u \<noteq> []"
    and "c \<le> 60000" and "F < 10 ^ 6" and "(I * 10 ^ 6 + F) * c \<le> 2 ^ 63" and "0 < c"
  shows "elements orig 0 (show_nat I @ ''.'' @ six_digits F @ u) = Inr ((I * 10 ^ 6 + F) * c)"
proof -
  let ?N = "(I * 10 ^ 6 + F) * c"
  have el: "element orig (show_nat I @ ''.'' @ six_digits F @ u) = Inr (?N, [])"
    using assms by (rule element_formatted)
  have "?N < 2 ^ 64" using assms(6) by simp
  then have m: "?N mod 2 ^ 64 = ?N" by simp
  have fin: "elements orig ?N [] = Inr ?N"
    by (subst elements.simps) simp
  show ?thesis
    using el m fin assms(6) by (subst elements.simps) simp
qed

lemma split_sign_digit: "is_digit (hd s) \<Longrightarrow> s \<noteq> [] \<Longrightarrow> split_sign s = (False, s)"
  by (cases s) (auto simp: split_sign_def is_digit_def byte_def)

lemma ParseDuration_formatted:
  assumes "unitMap u = Some (c * 10 ^ 6)" and "list_all is_unit_char u" and "u \<noteq> []"
    and "c \<le> 60000" and "0 < c"
    and "q * c \<le> (if neg then 2 ^ 63 else 2 ^ 63 - 1)"
  shows "time_ParseDuration ((if neg then ''-'' else []) @ show_nat (q div 10 ^ 6) @ ''.''
                              @ six_digits (q mod 10 ^ 6) @ u)
           = (if neg then - int (q * c) else int (q * c), None)"
proof -
  let ?body = "show_nat (q div 10 ^ 6) @ ''.'' @ six_digits (q mod 10 ^ 6) @ u"
  let ?orig = "(if neg then ''-'' else []) @ ?body"
  have q: "q div 10 ^ 6 * 10 ^ 6 + q mod 10 ^ 6 = q" by simp
  have b: "q * c \<le> 2 ^ 63" using assms(6) by (cases neg) simp_all
  have "elements ?orig 0 ?body = Inr ((q div 10 ^ 6 * 10 ^ 6 + q mod 10 ^ 6) * c)"
    using assms(1-4) _ _ assms(5) by (rule elements_formatted) (simp_all only: q b, simp)
  then have el: "elements ?orig 0 ?body = Inr (q * c)" by (simp only: q)
  have hd: "is_digit (hd ?body)" and ne: "?body \<noteq> []"
    using hd_show_nat_digit[of "q div 10 ^ 6"] show_nat_nonempty[of "q div 10 ^ 6"]
    by (cases "show_nat (q div 10 ^ 6)"; simp)+
  have "1 \<le> length (show_nat (q div 10 ^ 6))"
    using show_nat_nonempty[of "q div 10 ^ 6"] by (cases "show_nat (q div 10 ^ 6)") simp_all
  then have "length ?body \<noteq> length ''0''" by (simp add: length_six_digits)
  then have nz: "?body \<noteq> ''0''" by metis
  have sp: "split_sign ?orig = (neg, ?body)"
  proof (cases neg)
    case True
    then show ?thesis by (simp add: split_sign_def)
  next
    case False
    then show ?thesis using split_sign_digit[OF hd ne] by simp
  qed
  show ?thesis
  proof (cases neg)
    case True
    then show ?thesis
      unfolding time_ParseDuration_def sp using el nz ne by simp
  next
    case False
    with assms(6) have "\<not> 2 ^ 63 - 1 < q * c" by simp
    with False show ?thesis
      unfolding time_ParseDuration_def sp using el nz ne by simp
  qed
qed

section \<open>The decoders\<close>

subsection \<open>The bool decoder\<close>

text \<open>The JSON literal of an integer: its decimal digits, after a minus sign when negative.\<close>

definition int_literal :: "int \<Rightarrow> string" where
  "int_literal n = (if n < 0 then ''-'' @ show_nat (nat (- n)) else show_nat (nat n))"

lemma ParseInt_int_literal:
  assumes "- (2 ^ 63) \<le> n" and "n < 2 ^ 63"
  shows "strconv_ParseInt (int_literal n) = Some n"
proof (cases "n < 0")
  case True
  let ?k = "nat (- n)"
  have "split_sign (''-'' @ show_nat ?k) = (True, show_nat ?k)"
    by (simp add: split_sign_def)
  moreover have "?k \<le> 2 ^ 63" using assms(1) by simp
  moreover have "- int ?k = n" using True by simp
  ultimately show ?thesis
    using True
    by (simp add: strconv_ParseInt_def int_literal_def show_nat_digits show_nat_nonempty
        digits_val_show_nat)
next
  case False
  let ?k = "nat n"
  have "split_sign (show_nat ?k) = (False, show_nat ?k)"
    using hd_show_nat_digit show_nat_nonempty by (rule split_sign_digit)
  moreover have "?k < 2 ^ 63" using assms(2) False by simp
  moreover have "int ?k = n" using False by simp
  ultimately show ?thesis
    using False
    by (simp add: strconv_ParseInt_def int_literal_def show_nat_digits show_nat_nonempty
        digits_val_show_nat)
qed

text \<open>
  Claim C3, as the code has it. For every integer \<open>n\<close> in the range of a Go \<^verbatim>\<open>int\<close>
  (\<open>- 2\<^sup>6\<^sup>3 \<le> n < 2\<^sup>6\<^sup>3\<close>), \<^verbatim>\<open>responseBool.UnmarshalJSON\<close> on the JSON integer \<open>n\<close> sets
  the receiver to \<^verbatim>\<open>false\<close> for \<open>0\<close> and to \<^verbatim>\<open>true\<close> for \<open>1\<close> and returns \<^verbatim>\<open>nil\<close>; for every
  other \<open>n\<close> it returns \<^verbatim>\<open>errInvalidBool\<close> and leaves the receiver as it was.
\<close>

theorem bool_decoder_int_range:
  assumes "- (2 ^ 63) \<le> n" and "n < 2 ^ 63"
  shows "responseBool_UnmarshalJSON (Valid (JNumber (int_literal n))) r =
           (if n = 0 then (None, False)
            else if n = 1 then (None, True)
            else (Some errInvalidBool, r))"
  using ParseInt_int_literal[OF assms] by (simp add: responseBool_UnmarshalJSON_def)

text \<open>The theorem at \<open>0\<close>, \<open>1\<close>, \<open>2\<close> and \<open>- 1\<close>, the four inputs the specification lists.\<close>

theorem bool_decoder_int_range_witness:
  "responseBool_UnmarshalJSON (Valid (JNumber ''0'')) True = (None, False)
   \<and> responseBool_UnmarshalJSON (Valid (JNumber ''1'')) False = (None, True)
   \<and> responseBool_UnmarshalJSON (Valid (JNumber ''2'')) False = (Some errInvalidBool, False)
   \<and> responseBool_UnmarshalJSON (Valid (JNumber ''-1'')) True = (Some errInvalidBool, True)"
proof -
  have lits: "int_literal 0 = ''0''" "int_literal 1 = ''1''" "int_literal 2 = ''2''"
    "int_literal (- 1) = ''-1''"
    by code_simp+
  show ?thesis
    using bool_decoder_int_range[of 0 True] bool_decoder_int_range[of 1 False]
      bool_decoder_int_range[of 2 False] bool_decoder_int_range[of "- 1" True]
    by (simp add: lits)
qed

text \<open>
  An integer beyond the range of \<^verbatim>\<open>int\<close> does not reach the \<^verbatim>\<open>switch\<close>:
  \<^verbatim>\<open>json.Unmarshal\<close> rejects \<open>2\<^sup>6\<^sup>3\<close> with its own \<^verbatim>\<open>UnmarshalTypeError\<close>, so the error is
  not \<^verbatim>\<open>errInvalidBool\<close>.
\<close>

theorem bool_decoder_beyond_int:
  "responseBool_UnmarshalJSON (Valid (JNumber ''9223372036854775808'')) False
     = (Some (UnmarshalTypeError ''number 9223372036854775808''), False)"
  by (simp add: responseBool_UnmarshalJSON_def strconv_ParseInt_def split_sign_def
      is_digit_def byte_def digits_val_def digit_val_def)

subsection \<open>Arrays\<close>

text \<open>
  Claim C4. Given a JSON array, each of the three decoders returns the
  \<^verbatim>\<open>UnmarshalTypeError\<close> of \<^verbatim>\<open>json.Unmarshal\<close> (its value description is \<^verbatim>\<open>array\<close>) and
  leaves its receiver as it was: there is no decoded value, and the functions are total.
\<close>

theorem array_is_shape_error:
  "responseTime_UnmarshalJSON (Valid (JArray xs)) t = (Some (UnmarshalTypeError ''array''), t)
   \<and> responseURL_UnmarshalJSON (Valid (JArray xs)) u = (Some (UnmarshalTypeError ''array''), u)
   \<and> responseBool_UnmarshalJSON (Valid (JArray xs)) b = (Some (UnmarshalTypeError ''array''), b)"
  by (simp add: responseTime_UnmarshalJSON_def responseURL_UnmarshalJSON_def
      responseBool_UnmarshalJSON_def)

subsection \<open>The URL decoder\<close>

lemma parse_example: "url_Parse ''https://example.com/a?b=c''
  = Inr (new_URL\<lparr>Scheme := ''https'', Host := ''example.com'', Path := ''/a'', RawQuery := ''b=c''\<rparr>)"
  by code_simp

lemma parse_empty: "url_Parse [] = Inr new_URL"
  by code_simp

text \<open>
  Claim C5. Decoding the JSON string \<^verbatim>\<open>https://example.com/a?b=c\<close> returns \<^verbatim>\<open>nil\<close> and
  sets the receiver to the URL with scheme \<^verbatim>\<open>https\<close>, host \<^verbatim>\<open>example.com\<close>, path \<^verbatim>\<open>/a\<close> and
  query \<^verbatim>\<open>b=c\<close> (every other field empty); scheme, \<^verbatim>\<open>://\<close>, host, path, \<^verbatim>\<open>?\<close> and query put
  together again are the input string.
\<close>

theorem url_example:
  "responseURL_UnmarshalJSON (Valid (JString ''https://example.com/a?b=c'')) r
     = (None, new_URL\<lparr>Scheme := ''https'', Host := ''example.com'', Path := ''/a'',
                       RawQuery := ''b=c''\<rparr>)
   \<and> Scheme (snd (responseURL_UnmarshalJSON (Valid (JString ''https://example.com/a?b=c'')) r))
       @ ''://'' @ Host (snd (responseURL_UnmarshalJSON (Valid (JString ''https://example.com/a?b=c'')) r))
       @ Path (snd (responseURL_UnmarshalJSON (Valid (JString ''https://example.com/a?b=c'')) r))
       @ ''?'' @ RawQuery (snd (responseURL_UnmarshalJSON (Valid (JString ''https://example.com/a?b=c'')) r))
     = ''https://example.com/a?b=c''"
  by (simp add: responseURL_UnmarshalJSON_def parse_example)

text \<open>
  Claim C6. Decoding the empty JSON string returns \<^verbatim>\<open>nil\<close> and sets the receiver to the
  URL whose fields are all empty, scheme, host and path among them.
\<close>

theorem url_empty:
  "responseURL_UnmarshalJSON (Valid (JString [])) r = (None, new_URL)
   \<and> Scheme new_URL = [] \<and> Host new_URL = [] \<and> Path new_URL = []"
  by (simp add: responseURL_UnmarshalJSON_def parse_empty new_URL_def)

end
